theory Spec2Isabelle
  imports Complex_Main "HOL-Library.Word" "HOL-Library.Log_Nat"
begin

section \<open>Machine integers and Qt value types\<close>

text \<open>
  The widget controller of \<^verbatim>\<open>filetransferinstance.cpp\<close> stores C++ integers. They are
  modelled as words of the width the type has on an LP64 platform: \<^verbatim>\<open>int\<close> and
  \<^verbatim>\<open>uint\<close> are 32 bits, \<^verbatim>\<open>long\<close>, \<^verbatim>\<open>qint64\<close>, \<^verbatim>\<open>int64_t\<close> and
  \<^verbatim>\<open>unsigned long long\<close> are 64 bits. Signed values are read with \<open>sint\<close>, unsigned
  ones with \<open>unat\<close>; every arithmetic result is computed on \<open>int\<close> and stored back
  with \<open>word_of_int\<close>, which wraps to the width of the destination.
\<close>

type_synonym c_int = "32 word"
type_synonym c_uint = "32 word"
type_synonym c_long = "64 word"
type_synonym qint64 = "64 word"
type_synonym c_ulonglong = "64 word"

text \<open>C++ integer division truncates towards zero; HOL's \<open>div\<close> rounds down.\<close>

definition tdiv :: "int \<Rightarrow> int \<Rightarrow> int" where
  "tdiv a b = sgn a * sgn b * (\<bar>a\<bar> div \<bar>b\<bar>)"

text \<open>
  A \<^verbatim>\<open>QDateTime\<close> is the number of milliseconds since the epoch.
  \<^verbatim>\<open>a.secsTo(b)\<close> is the millisecond distance divided by 1000, as a C++ division.
\<close>

type_synonym QDateTime = int

definition secsTo :: "QDateTime \<Rightarrow> QDateTime \<Rightarrow> int" where
  "secsTo a b = tdiv (b - a) 1000"

text \<open>
  A \<^verbatim>\<open>QImage\<close> is kept symbolically: the null image, an image loaded from a resource
  path, an image decoded from bytes, or a scaled copy.
\<close>

datatype QImage =
    QImage_null
  | QImage_resource string
  | QImage_loaded string
  | QImage_scaled nat QImage

definition scaledToHeight :: "nat \<Rightarrow> QImage \<Rightarrow> QImage" where
  "scaledToHeight h img = (case img of QImage_null \<Rightarrow> QImage_null | _ \<Rightarrow> QImage_scaled h img)"

section \<open>Decimal rendering\<close>

definition digit_char :: "nat \<Rightarrow> char" where
  "digit_char d = ''0123456789'' ! (d mod 10)"

fun show_nat :: "nat \<Rightarrow> string" where
  "show_nat n = (if n < 10 then [digit_char n] else show_nat (n div 10) @ [digit_char (n mod 10)])"

declare show_nat.simps [simp del]

definition two_digits :: "nat \<Rightarrow> string" where
  "two_digits n = [digit_char (n div 10), digit_char n]"

text \<open>
  \<^verbatim>\<open>QString().setNum(x, 'f', 2)\<close> for a non-negative \<open>x = m / d\<close>: the decimal expansion
  rounded to two fraction digits, a tie going to the even neighbour.
\<close>

definition round_hundredths :: "nat \<Rightarrow> nat \<Rightarrow> nat" where
  "round_hundredths m d =
     (let q = (100 * m) div d; r = (100 * m) mod d
      in if 2 * r > d \<or> (2 * r = d \<and> odd q) then q + 1 else q)"

definition setNum_f2 :: "nat \<Rightarrow> nat \<Rightarrow> string" where
  "setNum_f2 m d =
     (let h = round_hundredths m d
      in show_nat (h div 100) @ ''.'' @ two_digits (h mod 100))"

section \<open>Byte-size formatting\<close>

text \<open>
  \<^verbatim>\<open>getHumanReadableSize\<close> computes in \<^verbatim>\<open>double\<close>. The model computes the same
  quantities exactly: \<open>ilog1024\<close> is the integer part of \<open>ln n / ln 1024\<close>
  (lemma \<open>ilog1024_floor_ln\<close> below), \<open>double_of_u64\<close> is the conversion of a 64-bit
  unsigned integer to the nearest \<^verbatim>\<open>double\<close> (53 significant bits, ties to even),
  and \<^verbatim>\<open>pow(1024, exp)\<close> is the power of two \<open>1024 ^ exp\<close>, by which a double is
  divided without rounding.
\<close>

definition suffix_tab :: "string list" where
  "suffix_tab = [''B'', ''kiB'', ''MiB'', ''GiB'', ''TiB'']"

fun ilog1024 :: "nat \<Rightarrow> nat" where
  "ilog1024 n = (if n < 1024 then 0 else Suc (ilog1024 (n div 1024)))"

declare ilog1024.simps [simp del]

fun nat_bitlen :: "nat \<Rightarrow> nat" where
  "nat_bitlen n = (if n = 0 then 0 else Suc (nat_bitlen (n div 2)))"

declare nat_bitlen.simps [simp del]

definition double_of_u64 :: "nat \<Rightarrow> nat" where
  "double_of_u64 n =
     (if n < 2 ^ 53 then n
      else let e = nat_bitlen n - 53; q = n div 2 ^ e; r = n mod 2 ^ e; half = 2 ^ (e - 1)
           in (if r > half \<or> (r = half \<and> odd q) then q + 1 else q) * 2 ^ e)"

definition size_exp :: "c_ulonglong \<Rightarrow> nat" where
  "size_exp sz = (if sz \<noteq> 0 then min (ilog1024 (unat sz)) (length suffix_tab - 1) else 0)"

definition getHumanReadableSize :: "c_ulonglong \<Rightarrow> string" where
  "getHumanReadableSize sz =
     (let exp = size_exp sz
      in setNum_f2 (double_of_u64 (unat sz)) (1024 ^ exp) @ suffix_tab ! exp)"

text \<open>
  \<^verbatim>\<open>QTime(0,0).addSecs(s).toString("mm:ss")\<close>: the time of day \<open>s\<close> seconds after
  midnight, wrapping at 24 hours in either direction, shown as minutes and seconds.
\<close>

definition eta_mmss :: "int \<Rightarrow> string" where
  "eta_mmss s =
     (let t = nat (s mod 86400)
      in two_digits ((t div 60) mod 60) @ '':'' @ two_digits (t mod 60))"

section \<open>The transfer record and its surroundings\<close>

datatype FileDirection = SENDING | RECEIVING

datatype TransfState = tsPending | tsProcessing | tsPaused | tsFinished | tsCanceled

text \<open>
  \<^verbatim>\<open>ToxFile\<close> is declared by the core. Only the members this file reads are kept;
  the open file handle \<^verbatim>\<open>File.file\<close> is the file stored at \<open>tox_filePath\<close>.
\<close>

record ToxFile =
  tox_fileNum :: c_int
  tox_friendId :: c_int
  tox_fileName :: string
  tox_filePath :: string
  tox_filesize :: qint64
  tox_direction :: FileDirection

text \<open>
  The members of \<^verbatim>\<open>FileTransferInstance\<close>. The members \<^verbatim>\<open>id\<close> and \<^verbatim>\<open>size\<close>
  are called \<open>id_num\<close> and \<open>size_str\<close> here.
\<close>

record FileTransferInstance =
  id_num :: c_uint
  state :: TransfState
  remotePaused :: bool
  filename :: string
  savePath :: string
  size_str :: string
  speed :: string
  eta :: string
  lastUpdate :: QDateTime
  lastBytesSent :: qint64
  fileNum :: c_int
  friendId :: c_int
  direction :: FileDirection
  pic :: QImage

text \<open>
  What the code does to its surroundings is recorded in order: the signal it emits, the
  warning it logs, the requests it makes to the core, and the dialogs it opens.
\<close>

datatype event =
    StateUpdated
  | QWarning string
  | CancelFileSend c_int c_int
  | RejectFileRecvRequest c_int c_int
  | AcceptFileRecvRequest c_int c_int string
  | PauseResumeFileRecv c_int c_int
  | PauseResumeFileSend c_int c_int
  | GetSaveFileName string
  | MessageBoxWarning

text \<open>
  The part of the platform the code asks: the files that exist with their content, which
  paths can be opened for writing and for reading, and which byte strings decode as an
  image.
\<close>

record platform =
  files :: "string \<rightharpoonup> string"
  can_write :: "string \<Rightarrow> bool"
  can_read :: "string \<Rightarrow> bool"
  is_image :: "string \<Rightarrow> bool"

text \<open>
  The whole state: the object, whether the signals of the core are still connected to its
  slots, the platform, and the trace of events so far. The connections are made by the
  owner of the object, outside this file; the file itself only ever removes them.
\<close>

record world =
  obj :: FileTransferInstance
  connected :: bool
  sys :: platform
  trace :: "event list"

definition emit :: "event \<Rightarrow> world \<Rightarrow> world" where
  "emit e w = w\<lparr>trace := trace w @ [e]\<rparr>"

definition loadFromData :: "platform \<Rightarrow> string \<Rightarrow> QImage option" where
  "loadFromData p bytes = (if is_image p bytes then Some (QImage_loaded bytes) else None)"

section \<open>Construction\<close>

text \<open>
  The constructor takes the current time and the value of the static counter
  \<^verbatim>\<open>Idconter\<close>, and returns the new object with the incremented counter.
\<close>

definition FileTransferInstance_new ::
  "platform \<Rightarrow> QDateTime \<Rightarrow> c_uint \<Rightarrow> ToxFile \<Rightarrow> FileTransferInstance \<times> c_uint" where
  "FileTransferInstance_new p now Idconter File =
     (\<lparr>id_num = Idconter,
       state = tsPending,
       remotePaused = False,
       filename = tox_fileName File,
       savePath = [],
       size_str = getHumanReadableSize (tox_filesize File),
       speed = ''0B/s'',
       eta = ''00:00'',
       lastUpdate = now,
       lastBytesSent = 0,
       fileNum = tox_fileNum File,
       friendId = tox_friendId File,
       direction = tox_direction File,
       pic = (if tox_direction File = SENDING
              then (case loadFromData p (case files p (tox_filePath File) of None \<Rightarrow> [] | Some c \<Rightarrow> c) of
                      Some preview \<Rightarrow> scaledToHeight 50 preview
                    | None \<Rightarrow> QImage_null)
              else QImage_null)\<rparr>,
      Idconter + 1)"

section \<open>Notification handlers\<close>

text \<open>
  The three quantities \<^verbatim>\<open>onFileTransferInfo\<close> computes before it formats anything:
  the elapsed seconds narrowed to \<^verbatim>\<open>int\<close>, the byte difference as \<^verbatim>\<open>qint64\<close>, and
  the throughput \<^verbatim>\<open>rawspeed\<close>, the difference (zero when negative) divided by the
  elapsed seconds and stored in a \<^verbatim>\<open>long\<close>.
\<close>

definition info_timediff :: "FileTransferInstance \<Rightarrow> QDateTime \<Rightarrow> c_int" where
  "info_timediff r newtime = word_of_int (secsTo (lastUpdate r) newtime)"

definition info_diff :: "FileTransferInstance \<Rightarrow> qint64 \<Rightarrow> qint64" where
  "info_diff r BytesSent = BytesSent - lastBytesSent r"

definition info_rawspeed :: "FileTransferInstance \<Rightarrow> QDateTime \<Rightarrow> qint64 \<Rightarrow> c_long" where
  "info_rawspeed r newtime BytesSent =
     (let diff = info_diff r BytesSent;
          diff = (if sint diff < 0 then 0 else diff)
      in word_of_int (tdiv (sint diff) (sint (info_timediff r newtime))))"

definition negative_speed_warning :: string where
  "negative_speed_warning = ''FileTransferInstance::onFileTransferInfo: Negative transfer speed !''"

definition onFileTransferInfo ::
  "QDateTime \<Rightarrow> c_int \<Rightarrow> c_int \<Rightarrow> qint64 \<Rightarrow> qint64 \<Rightarrow> FileDirection \<Rightarrow> world \<Rightarrow> world" where
  "onFileTransferInfo newtime FriendId FileNum Filesize BytesSent Direction w =
     (if FileNum \<noteq> fileNum (obj w) \<or> FriendId \<noteq> friendId (obj w) \<or> Direction \<noteq> direction (obj w)
      then w
      else if sint (info_timediff (obj w) newtime) \<le> 0 then w
      else
        let w1 = (if sint (info_diff (obj w) BytesSent) < 0
                  then emit (QWarning negative_speed_warning) w else w);
            rawspeed = info_rawspeed (obj w) newtime BytesSent;
            w2 = w1\<lparr>obj := (obj w1)\<lparr>speed := getHumanReadableSize rawspeed @ ''/s''\<rparr>\<rparr>;
            w3 = w2\<lparr>obj := (obj w2)\<lparr>size_str := getHumanReadableSize Filesize\<rparr>\<rparr>
        in if rawspeed = 0 then w3
           else
             let etaSecs = (word_of_int (tdiv (sint (Filesize - BytesSent)) (sint rawspeed)) :: c_int);
                 w4 = w3\<lparr>obj := (obj w3)\<lparr>eta := eta_mmss (sint etaSecs)\<rparr>\<rparr>;
                 w5 = w4\<lparr>obj := (obj w4)\<lparr>lastUpdate := newtime\<rparr>\<rparr>;
                 w6 = w5\<lparr>obj := (obj w5)\<lparr>lastBytesSent := BytesSent\<rparr>\<rparr>
             in emit StateUpdated w6)"

text \<open>\<^verbatim>\<open>disconnect(Core::getInstance(),0,this,0)\<close> removes every connection from the core.\<close>

definition disconnect_core :: "world \<Rightarrow> world" where
  "disconnect_core w = w\<lparr>connected := False\<rparr>"

definition onFileTransferCancelled :: "c_int \<Rightarrow> c_int \<Rightarrow> FileDirection \<Rightarrow> world \<Rightarrow> world" where
  "onFileTransferCancelled FriendId FileNum Direction w =
     (if FileNum \<noteq> fileNum (obj w) \<or> FriendId \<noteq> friendId (obj w) \<or> Direction \<noteq> direction (obj w)
      then w
      else
        let w1 = disconnect_core w;
            w2 = w1\<lparr>obj := (obj w1)\<lparr>state := tsCanceled\<rparr>\<rparr>
        in emit StateUpdated w2)"

text \<open>The preview of a received file: only files of at most 25 MiB that open and decode.\<close>

definition finished_preview :: "platform \<Rightarrow> ToxFile \<Rightarrow> QImage option" where
  "finished_preview p File =
     (case files p (tox_filePath File) of
        None \<Rightarrow> None
      | Some bytes \<Rightarrow>
          if can_read p (tox_filePath File) \<and> length bytes \<le> 1024 * 1024 * 25
          then (case loadFromData p bytes of
                  Some preview \<Rightarrow> Some (scaledToHeight 50 preview)
                | None \<Rightarrow> None)
          else None)"

definition onFileTransferFinished :: "ToxFile \<Rightarrow> world \<Rightarrow> world" where
  "onFileTransferFinished File w =
     (if tox_fileNum File \<noteq> fileNum (obj w) \<or> tox_friendId File \<noteq> friendId (obj w)
         \<or> tox_direction File \<noteq> direction (obj w)
      then w
      else
        let w1 = disconnect_core w;
            w2 = (if tox_direction File = RECEIVING
                  then (case finished_preview (sys w1) File of
                          Some scaled \<Rightarrow> w1\<lparr>obj := (obj w1)\<lparr>pic := scaled\<rparr>\<rparr>
                        | None \<Rightarrow> w1)
                  else w1);
            w3 = w2\<lparr>obj := (obj w2)\<lparr>state := tsFinished\<rparr>\<rparr>
        in emit StateUpdated w3)"

definition onFileTransferAccepted :: "ToxFile \<Rightarrow> world \<Rightarrow> world" where
  "onFileTransferAccepted File w =
     (if tox_fileNum File \<noteq> fileNum (obj w) \<or> tox_friendId File \<noteq> friendId (obj w)
         \<or> tox_direction File \<noteq> direction (obj w)
      then w
      else
        let w1 = w\<lparr>obj := (obj w)\<lparr>remotePaused := False\<rparr>\<rparr>;
            w2 = w1\<lparr>obj := (obj w1)\<lparr>state := tsProcessing\<rparr>\<rparr>
        in emit StateUpdated w2)"

definition onFileTransferRemotePausedUnpaused :: "ToxFile \<Rightarrow> bool \<Rightarrow> world \<Rightarrow> world" where
  "onFileTransferRemotePausedUnpaused File paused w =
     (if tox_fileNum File \<noteq> fileNum (obj w) \<or> tox_friendId File \<noteq> friendId (obj w)
         \<or> tox_direction File \<noteq> direction (obj w)
      then w
      else emit StateUpdated (w\<lparr>obj := (obj w)\<lparr>remotePaused := paused\<rparr>\<rparr>))"

definition onFileTransferPaused :: "c_int \<Rightarrow> c_int \<Rightarrow> FileDirection \<Rightarrow> world \<Rightarrow> world" where
  "onFileTransferPaused FriendId FileNum Direction w =
     (if FileNum \<noteq> fileNum (obj w) \<or> FriendId \<noteq> friendId (obj w) \<or> Direction \<noteq> direction (obj w)
      then w
      else emit StateUpdated (w\<lparr>obj := (obj w)\<lparr>state := tsPaused\<rparr>\<rparr>))"

text \<open>
  The signals of the core, each with the arguments it carries, and their delivery: a
  signal reaches its slot only while the connection exists. The progress slot reads the
  clock, so delivery takes the current time.
\<close>

datatype notification =
    FileTransferInfo c_int c_int qint64 qint64 FileDirection
  | FileTransferCancelled c_int c_int FileDirection
  | FileTransferFinished ToxFile
  | FileTransferAccepted ToxFile
  | FileTransferRemotePausedUnpaused ToxFile bool
  | FileTransferPaused c_int c_int FileDirection

fun slot :: "QDateTime \<Rightarrow> notification \<Rightarrow> world \<Rightarrow> world" where
  "slot now (FileTransferInfo FriendId FileNum Filesize BytesSent Direction) w =
     onFileTransferInfo now FriendId FileNum Filesize BytesSent Direction w"
| "slot now (FileTransferCancelled FriendId FileNum Direction) w =
     onFileTransferCancelled FriendId FileNum Direction w"
| "slot now (FileTransferFinished File) w = onFileTransferFinished File w"
| "slot now (FileTransferAccepted File) w = onFileTransferAccepted File w"
| "slot now (FileTransferRemotePausedUnpaused File paused) w =
     onFileTransferRemotePausedUnpaused File paused w"
| "slot now (FileTransferPaused FriendId FileNum Direction) w =
     onFileTransferPaused FriendId FileNum Direction w"

definition deliver :: "QDateTime \<Rightarrow> notification \<Rightarrow> world \<Rightarrow> world" where
  "deliver now n w = (if connected w then slot now n w else w)"

text \<open>The identity triple a notification carries, in the order friend, file, direction.\<close>

fun notification_identity :: "notification \<Rightarrow> c_int \<times> c_int \<times> FileDirection" where
  "notification_identity (FileTransferInfo FriendId FileNum Filesize BytesSent Direction) =
     (FriendId, FileNum, Direction)"
| "notification_identity (FileTransferCancelled FriendId FileNum Direction) =
     (FriendId, FileNum, Direction)"
| "notification_identity (FileTransferFinished File) =
     (tox_friendId File, tox_fileNum File, tox_direction File)"
| "notification_identity (FileTransferAccepted File) =
     (tox_friendId File, tox_fileNum File, tox_direction File)"
| "notification_identity (FileTransferRemotePausedUnpaused File paused) =
     (tox_friendId File, tox_fileNum File, tox_direction File)"
| "notification_identity (FileTransferPaused FriendId FileNum Direction) =
     (FriendId, FileNum, Direction)"

definition own_identity :: "FileTransferInstance \<Rightarrow> c_int \<times> c_int \<times> FileDirection" where
  "own_identity r = (friendId r, fileNum r, direction r)"

section \<open>User actions\<close>

definition cancelTransfer :: "world \<Rightarrow> world" where
  "cancelTransfer w =
     (let w1 = emit (CancelFileSend (friendId (obj w)) (fileNum (obj w))) w;
          w2 = w1\<lparr>obj := (obj w1)\<lparr>state := tsCanceled\<rparr>\<rparr>
      in emit StateUpdated w2)"

definition rejectRecvRequest :: "world \<Rightarrow> world" where
  "rejectRecvRequest w =
     (let w1 = emit (RejectFileRecvRequest (friendId (obj w)) (fileNum (obj w))) w;
          w2 = onFileTransferCancelled (friendId (obj w1)) (fileNum (obj w1)) (direction (obj w1)) w1;
          w3 = w2\<lparr>obj := (obj w2)\<lparr>state := tsCanceled\<rparr>\<rparr>
      in emit StateUpdated w3)"

text \<open>
  \<^verbatim>\<open>isFileWritable\<close> opens the path for writing, which creates or empties the file
  when it succeeds, and removes the file again if it did not exist before.
\<close>

definition isFileWritable :: "platform \<Rightarrow> string \<Rightarrow> bool \<times> platform" where
  "isFileWritable p path =
     (let exists = (files p path \<noteq> None);
          out = can_write p path;
          p1 = (if out then p\<lparr>files := (files p)(path \<mapsto> [])\<rparr> else p);
          p2 = (if \<not> exists then p1\<lparr>files := (files p1)(path := None)\<rparr> else p1)
      in (out, p2))"

text \<open>
  \<^verbatim>\<open>acceptRecvRequest\<close> asks the user until the save dialog is cancelled (the empty
  path) or a writable path is chosen. The answers the user gives to the successive
  dialogs are a list. While the list holds no deciding answer the call has not returned:
  it is \<open>Waiting\<close> in the dialog it opened last, with the state reached so far.
\<close>

datatype 'a run = Returned 'a | Waiting 'a

fun acceptRecvRequest :: "string list \<Rightarrow> world \<Rightarrow> world run" where
  "acceptRecvRequest [] w = Waiting (emit (GetSaveFileName (filename (obj w))) w)"
| "acceptRecvRequest (path # answers) w =
     (let w1 = emit (GetSaveFileName (filename (obj w))) w
      in if path = [] then Returned w1
         else
           let (out, p) = isFileWritable (sys w1) path;
               w2 = w1\<lparr>sys := p\<rparr>
           in if out
              then
                let w3 = w2\<lparr>obj := (obj w2)\<lparr>savePath := path\<rparr>\<rparr>;
                    w4 = emit (AcceptFileRecvRequest (friendId (obj w3)) (fileNum (obj w3)) path) w3;
                    w5 = w4\<lparr>obj := (obj w4)\<lparr>state := tsProcessing\<rparr>\<rparr>
                in Returned (emit StateUpdated w5)
              else acceptRecvRequest answers (emit MessageBoxWarning w2))"

definition pauseResumeRecv :: "world \<Rightarrow> world" where
  "pauseResumeRecv w =
     (if \<not> (state (obj w) = tsProcessing \<or> state (obj w) = tsPaused) then w
      else if remotePaused (obj w) then w
      else emit StateUpdated (emit (PauseResumeFileRecv (friendId (obj w)) (fileNum (obj w))) w))"

definition pauseResumeSend :: "world \<Rightarrow> world" where
  "pauseResumeSend w =
     (if \<not> (state (obj w) = tsProcessing \<or> state (obj w) = tsPaused) then w
      else if remotePaused (obj w) then w
      else emit StateUpdated (emit (PauseResumeFileSend (friendId (obj w)) (fileNum (obj w))) w))"

definition pressFromHtml :: "string \<Rightarrow> string list \<Rightarrow> world \<Rightarrow> world run" where
  "pressFromHtml code answers w =
     (if state (obj w) = tsFinished \<or> state (obj w) = tsCanceled then Returned w
      else if direction (obj w) = SENDING
      then (if code = ''btnA'' then Returned (cancelTransfer w)
            else if code = ''btnB'' then Returned (pauseResumeSend w)
            else Returned w)
      else (if code = ''btnA'' then Returned (rejectRecvRequest w)
            else if code = ''btnB''
            then (if state (obj w) = tsPending then acceptRecvRequest answers w
                  else Returned (pauseResumeRecv w))
            else Returned w))"

section \<open>Rendering\<close>

text \<open>
  \<^verbatim>\<open>QImage2base64\<close> encodes an image as PNG and then in base 64. The encoder is a
  parameter \<open>b64\<close> of the rendering functions.
\<close>

definition insertMiniature :: "(QImage \<Rightarrow> string) \<Rightarrow> FileTransferInstance \<Rightarrow> string \<Rightarrow> string" where
  "insertMiniature b64 r type =
     (if pic r = QImage_null then []
      else ''<td><div class='' @ type @ ''>'' @ [CHR 0x0A]
           @ ''<img src=\"data:mini.'' @ show_nat (unat (id_num r)) @ ''/png;base64,'' @ b64 (pic r) @ ''\">''
           @ ''</div></td>'' @ [CHR 0x0A])"

definition wrapIntoForm ::
  "(QImage \<Rightarrow> string) \<Rightarrow> FileTransferInstance \<Rightarrow> string \<Rightarrow> string \<Rightarrow> string \<Rightarrow> string \<Rightarrow> string" where
  "wrapIntoForm b64 r content type imgAstr imgBstr =
     ''<table widht=100% cellspacing=\"0\">'' @ [CHR 0x0A]
     @ ''<tr valign=middle>'' @ [CHR 0x0A]
     @ insertMiniature b64 r type
     @ ''<td width=100%>'' @ [CHR 0x0A]
     @ ''<div class='' @ type @ ''>''
     @ content
     @ ''</div>'' @ [CHR 0x0A]
     @ ''</td>'' @ [CHR 0x0A]
     @ ''<td>'' @ [CHR 0x0A]
     @ ''<div class=button>'' @ imgAstr @ ''<br>'' @ imgBstr @ ''</div>'' @ [CHR 0x0A]
     @ ''</td>'' @ [CHR 0x0A]
     @ ''</tr>'' @ [CHR 0x0A]
     @ ''</table>'' @ [CHR 0x0A]"


definition draw2ButtonsForm ::
  "(QImage \<Rightarrow> string) \<Rightarrow> FileTransferInstance \<Rightarrow> string \<Rightarrow> QImage \<Rightarrow> QImage \<Rightarrow> string" where
  "draw2ButtonsForm b64 r type imgA imgB =
     (let widgetId = show_nat (unat (id_num r));
          imgAstr = ''<img src=\"data:ftrans.'' @ widgetId @ ''.btnA/png;base64,'' @ b64 imgA @ ''\">'';
          imgBstr = ''<img src=\"data:ftrans.'' @ widgetId @ ''.btnB/png;base64,'' @ b64 imgB @ ''\">'';
          content = ''<p>'' @ filename r @ ''</p>''
            @ ''<p>'' @ getHumanReadableSize (lastBytesSent r) @ '' / '' @ size_str r
            @ ''&nbsp;('' @ speed r @ '' ETA: '' @ eta r @ '')</p>'' @ [CHR 0x0A]
      in wrapIntoForm b64 r content type imgAstr imgBstr)"








section \<open>Runs and sample values\<close>

text \<open>A run of the core: notifications delivered one after the other, each at its time.\<close>

fun deliver_all :: "(QDateTime \<times> notification) list \<Rightarrow> world \<Rightarrow> world" where
  "deliver_all [] w = w"
| "deliver_all ((now, n) # ns) w = deliver_all ns (deliver now n w)"

text \<open>The events of \<open>k\<close> refused destinations: each a save dialog and a warning box.\<close>

definition reprompts :: "nat \<Rightarrow> string \<Rightarrow> event list" where
  "reprompts k fn = concat (replicate k [GetSaveFileName fn, MessageBoxWarning])"

text \<open>
  Sample values for the concrete instances below: a platform where only
  \<^verbatim>\<open>/tmp/in.bin\<close> can be written, an incoming and an outgoing transfer with friend 3
  and file number 7, and the freshly constructed, connected object of each.
\<close>

definition demo_platform :: platform where
  "demo_platform =
     \<lparr>files = Map.empty, can_write = (\<lambda>p. p = ''/tmp/in.bin''),
      can_read = (\<lambda>p. True), is_image = (\<lambda>b. False)\<rparr>"

definition demo_file :: ToxFile where
  "demo_file =
     \<lparr>tox_fileNum = 7, tox_friendId = 3, tox_fileName = ''in.bin'',
      tox_filePath = ''/tmp/in.bin'', tox_filesize = 1536, tox_direction = RECEIVING\<rparr>"

definition demo_world :: world where
  "demo_world =
     \<lparr>obj = fst (FileTransferInstance_new demo_platform 0 0 demo_file),
      connected = True, sys = demo_platform, trace = []\<rparr>"

definition demo_send_file :: ToxFile where
  "demo_send_file = demo_file\<lparr>tox_direction := SENDING\<rparr>"

definition demo_send_world :: world where
  "demo_send_world =
     \<lparr>obj = fst (FileTransferInstance_new demo_platform 0 1 demo_send_file),
      connected = True, sys = demo_platform, trace = []\<rparr>"

definition demo_processing_world :: world where
  "demo_processing_world = demo_world\<lparr>obj := (obj demo_world)\<lparr>state := tsProcessing\<rparr>\<rparr>"

definition demo_paused_world :: world where
  "demo_paused_world =
     demo_world\<lparr>obj := (obj demo_world)\<lparr>state := tsPaused, remotePaused := True\<rparr>\<rparr>"


definition demo_late_world :: world where
  "demo_late_world = demo_world\<lparr>obj := (obj demo_world)\<lparr>lastBytesSent := 1024\<rparr>\<rparr>"

text \<open>
  Two histories of the incoming sample transfer. In the first the core reports 4 bytes
  two seconds after construction; in the second it reports 5 bytes ten seconds after
  construction.
\<close>

definition demo_progress_world :: world where
  "demo_progress_world = onFileTransferInfo 2000 3 7 1536 4 RECEIVING demo_world"

definition demo_stalled_world :: world where
  "demo_stalled_world = onFileTransferInfo 10000 3 7 1536 5 RECEIVING demo_world"



section \<open>Arithmetic of the progress handler\<close>

lemma tdiv_nonneg: "0 \<le> a \<Longrightarrow> 0 < b \<Longrightarrow> tdiv a b = a div b"
  by (cases "a = 0") (simp_all add: tdiv_def)

lemma sint_diff_exact:
  fixes a b :: qint64
  assumes "- (2 ^ 63) \<le> sint a - sint b" "sint a - sint b < 2 ^ 63"
  shows "sint (a - b) = sint a - sint b"
  using assms by (simp add: sint_word_ariths signed_take_bit_int_eq_self)

lemma rawspeed_quotient:
  assumes "0 \<le> sint (lastBytesSent r)" "sint (lastBytesSent r) \<le> sint BytesSent"
    and "0 < sint (info_timediff r newtime)"
  shows "sint (info_rawspeed r newtime BytesSent) =
           (sint BytesSent - sint (lastBytesSent r)) div sint (info_timediff r newtime)"
proof -
  let ?d = "sint BytesSent - sint (lastBytesSent r)"
  let ?t = "sint (info_timediff r newtime)"
  have ub: "sint BytesSent < 2 ^ 63"
    using sint_lt [of BytesSent] by simp
  have d: "sint (info_diff r BytesSent) = ?d"
    unfolding info_diff_def using assms ub by (intro sint_diff_exact) auto
  have q0: "0 \<le> ?d div ?t"
    using assms by (simp add: pos_imp_zdiv_nonneg_iff)
  have "?d div ?t \<le> ?d"
  proof (cases "?d = 0")
    case True
    then show ?thesis by simp
  next
    case False
    then have "0 < ?d" using assms by simp
    then show ?thesis by (rule int_div_le_self)
  qed
  then have q1: "?d div ?t < 2 ^ 63"
    using assms ub by linarith
  have "info_rawspeed r newtime BytesSent = word_of_int (?d div ?t)"
    using assms d by (simp add: info_rawspeed_def Let_def tdiv_nonneg)
  then show ?thesis
    using q0 q1 by (simp add: sint_sbintrunc' signed_take_bit_int_eq_self)
qed

lemma rawspeed_clamped:
  assumes "sint BytesSent < sint (lastBytesSent r)"
    and "- (2 ^ 63) \<le> sint BytesSent - sint (lastBytesSent r)"
  shows "sint (info_diff r BytesSent) < 0 \<and> info_rawspeed r newtime BytesSent = 0"
proof -
  have "sint BytesSent - sint (lastBytesSent r) < 2 ^ 63"
    using assms sint_lt [of BytesSent] by simp
  then have "sint (info_diff r BytesSent) = sint BytesSent - sint (lastBytesSent r)"
    unfolding info_diff_def using assms by (intro sint_diff_exact) auto
  then show ?thesis using assms by (simp add: info_rawspeed_def Let_def tdiv_def)
qed

section \<open>The two outcomes of a progress notification\<close>

lemma info_zero:
  assumes "FileNum = fileNum (obj w)" "FriendId = friendId (obj w)" "Direction = direction (obj w)"
    and "0 < sint (info_timediff (obj w) newtime)"
    and "info_rawspeed (obj w) newtime BytesSent = 0"
  shows "onFileTransferInfo newtime FriendId FileNum Filesize BytesSent Direction w =
     w\<lparr>obj := (obj w)\<lparr>speed := getHumanReadableSize 0 @ ''/s'',
                         size_str := getHumanReadableSize Filesize\<rparr>,
       trace := trace w @ (if sint (info_diff (obj w) BytesSent) < 0
                           then [QWarning negative_speed_warning] else [])\<rparr>"
  using assms by (simp add: onFileTransferInfo_def Let_def emit_def)

lemma info_pos:
  assumes "FileNum = fileNum (obj w)" "FriendId = friendId (obj w)" "Direction = direction (obj w)"
    and "0 < sint (info_timediff (obj w) newtime)"
    and "info_rawspeed (obj w) newtime BytesSent \<noteq> 0"
  shows "onFileTransferInfo newtime FriendId FileNum Filesize BytesSent Direction w =
     w\<lparr>obj := (obj w)\<lparr>speed := getHumanReadableSize (info_rawspeed (obj w) newtime BytesSent) @ ''/s'',
                         size_str := getHumanReadableSize Filesize,
                         eta := eta_mmss (sint (word_of_int (tdiv (sint (Filesize - BytesSent))
                                   (sint (info_rawspeed (obj w) newtime BytesSent))) :: c_int)),
                         lastUpdate := newtime,
                         lastBytesSent := BytesSent\<rparr>,
       trace := trace w @ (if sint (info_diff (obj w) BytesSent) < 0
                           then [QWarning negative_speed_warning] else []) @ [StateUpdated]\<rparr>"
  using assms by (simp add: onFileTransferInfo_def Let_def emit_def)

lemma info_speed:
  assumes "FileNum = fileNum (obj w)" "FriendId = friendId (obj w)" "Direction = direction (obj w)"
    and "0 < sint (info_timediff (obj w) newtime)"
  shows "speed (obj (onFileTransferInfo newtime FriendId FileNum Filesize BytesSent Direction w)) =
           getHumanReadableSize (info_rawspeed (obj w) newtime BytesSent) @ ''/s''"
proof (cases "info_rawspeed (obj w) newtime BytesSent = 0")
  case True
  with assms show ?thesis by (simp add: info_zero)
next
  case False
  with assms show ?thesis by (simp add: info_pos)
qed

text \<open>
  The baseline \<open>lastUpdate\<close>, \<open>lastBytesSent\<close> moves only at the end of the handler:
  a notification that is ignored, or whose throughput is zero, leaves it where it was.
\<close>

lemma info_baseline:
  "lastBytesSent (obj (onFileTransferInfo newtime FriendId FileNum Filesize BytesSent Direction w)) =
     (if (FriendId, FileNum, Direction) = own_identity (obj w)
         \<and> 0 < sint (info_timediff (obj w) newtime)
         \<and> info_rawspeed (obj w) newtime BytesSent \<noteq> 0
      then BytesSent else lastBytesSent (obj w))"
  "lastUpdate (obj (onFileTransferInfo newtime FriendId FileNum Filesize BytesSent Direction w)) =
     (if (FriendId, FileNum, Direction) = own_identity (obj w)
         \<and> 0 < sint (info_timediff (obj w) newtime)
         \<and> info_rawspeed (obj w) newtime BytesSent \<noteq> 0
      then newtime else lastUpdate (obj w))"
  by (auto simp: onFileTransferInfo_def Let_def emit_def own_identity_def)

lemma info_identity:
  "friendId (obj (onFileTransferInfo newtime FriendId FileNum Filesize BytesSent Direction w))
     = friendId (obj w)"
  "fileNum (obj (onFileTransferInfo newtime FriendId FileNum Filesize BytesSent Direction w))
     = fileNum (obj w)"
  "direction (obj (onFileTransferInfo newtime FriendId FileNum Filesize BytesSent Direction w))
     = direction (obj w)"
  by (simp_all add: onFileTransferInfo_def Let_def emit_def)

text \<open>
  Below \<open>2 ^ 31\<close> seconds the narrowing to \<^verbatim>\<open>int\<close> keeps the value: the elapsed
  time the handler divides by is the millisecond distance in whole seconds.
\<close>

lemma timediff_whole_seconds:
  assumes "0 \<le> newtime - lastUpdate r" "newtime - lastUpdate r < 2147483648000"
  shows "sint (info_timediff r newtime) = (newtime - lastUpdate r) div 1000"
proof -
  let ?e = "newtime - lastUpdate r"
  have s: "secsTo (lastUpdate r) newtime = ?e div 1000"
    using assms by (simp add: secsTo_def tdiv_nonneg)
  have "0 \<le> ?e div 1000" "?e div 1000 < 2147483648"
    using assms by arith+
  then show ?thesis
    by (simp add: info_timediff_def s sint_sbintrunc' signed_take_bit_int_eq_self)
qed

section \<open>The unit of a byte count\<close>

lemma ilog1024_bounds: "0 < n \<Longrightarrow> 1024 ^ ilog1024 n \<le> n \<and> n < 1024 * 1024 ^ ilog1024 n"
proof (induction n rule: ilog1024.induct)
  case (1 n)
  show ?case
  proof (cases "n < 1024")
    case True
    with 1 show ?thesis by (simp add: ilog1024.simps)
  next
    case False
    then have "0 < n div 1024" by (simp add: div_greater_zero_iff)
    with 1 False have ih: "1024 ^ ilog1024 (n div 1024) \<le> n div 1024"
      "n div 1024 < 1024 * 1024 ^ ilog1024 (n div 1024)" by auto
    from False have e: "ilog1024 n = Suc (ilog1024 (n div 1024))" by (simp add: ilog1024.simps)
    show ?thesis using ih unfolding e by (simp; linarith)
  qed
qed

text \<open>
  \<open>ilog1024\<close> is the value of the C++ expression \<^verbatim>\<open>(int) (log(size) / log(1024))\<close>
  computed without rounding.
\<close>

lemma ilog1024_floor_ln:
  assumes "0 < n"
  shows "int (ilog1024 n) = \<lfloor>ln (real n) / ln 1024\<rfloor>"
proof -
  have "\<lfloor>log (real 1024) (real n)\<rfloor> = int (ilog1024 n)"
    using ilog1024_bounds [OF assms] assms
    by (subst floor_log_nat_eq_powr_iff) auto
  then show ?thesis by (simp add: log_def)
qed

lemma ilog1024_ge: "1024 ^ k \<le> n \<Longrightarrow> k \<le> ilog1024 n"
proof (induction k arbitrary: n)
  case 0
  then show ?case by simp
next
  case (Suc k)
  then have "1024 ^ k \<le> n div 1024" by (simp add: less_eq_div_iff_mult_less_eq mult.commute)
  moreover have "\<not> n < 1024"
  proof -
    have one: "(1::nat) \<le> 1024 ^ k" by simp
    have "1024 * 1024 ^ k \<le> n" using Suc.prems by simp
    with one show ?thesis by linarith
  qed
  ultimately show ?case using Suc.IH [of "n div 1024"] by (simp add: ilog1024.simps)
qed

lemma size_exp_le: "size_exp sz \<le> 4"
  by (simp add: size_exp_def suffix_tab_def min_def)

lemma size_exp_small:
  assumes "sz \<noteq> 0" "unat sz < 1024 ^ 5"
  shows "1024 ^ size_exp sz \<le> unat sz \<and> unat sz < 1024 * 1024 ^ size_exp sz"
proof -
  have pos: "0 < unat sz" using assms by (simp add: unat_gt_0)
  have "ilog1024 (unat sz) \<le> 4"
  proof (rule ccontr)
    assume "\<not> ilog1024 (unat sz) \<le> 4"
    then have "5 \<le> ilog1024 (unat sz)" by simp
    then have "(1024::nat) ^ 5 \<le> 1024 ^ ilog1024 (unat sz)" by (intro power_increasing) auto
    with ilog1024_bounds [OF pos] assms show False by linarith
  qed
  then have "size_exp sz = ilog1024 (unat sz)" using assms by (simp add: size_exp_def suffix_tab_def)
  then show ?thesis using ilog1024_bounds [OF pos] by simp
qed

lemma size_exp_large:
  assumes "1024 ^ 5 \<le> unat sz"
  shows "size_exp sz = 4"
proof -
  have "sz \<noteq> 0" using assms by auto
  moreover have "5 \<le> ilog1024 (unat sz)" using assms by (rule ilog1024_ge)
  ultimately show ?thesis by (simp add: size_exp_def suffix_tab_def)
qed

lemmas fmt_defs =
  getHumanReadableSize_def size_exp_def setNum_f2_def round_hundredths_def double_of_u64_def
  show_nat.simps two_digits_def digit_char_def suffix_tab_def ilog1024.simps

lemma size_samples:
  "getHumanReadableSize 0 = ''0.00B''"
  "getHumanReadableSize 1024 = ''1.00kiB''"
  "getHumanReadableSize 1536 = ''1.50kiB''"
  "getHumanReadableSize 1048576 = ''1.00MiB''"
  "getHumanReadableSize 1125899906842624 = ''1024.00TiB''"
  by (simp_all add: fmt_defs)

lemma size_exp_samples:
  "size_exp 1536 = 1" "size_exp 1125899906842624 = 4"
  by (simp_all add: size_exp_def suffix_tab_def ilog1024.simps)

section \<open>The save dialog\<close>

lemma isFileWritable_refused:
  "\<not> can_write p path \<Longrightarrow> isFileWritable p path = (False, p)"
  by (simp add: isFileWritable_def Let_def fun_upd_idem)

lemma isFileWritable_granted:
  "can_write p path \<Longrightarrow> fst (isFileWritable p path)"
  by (simp add: isFileWritable_def Let_def)

lemma reprompts_Suc: "reprompts (Suc k) fn = [GetSaveFileName fn, MessageBoxWarning] @ reprompts k fn"
  by (simp add: reprompts_def)

lemma accept_refused_prefix:
  assumes "\<forall>a\<in>set bad. a \<noteq> [] \<and> \<not> can_write (sys w) a"
  shows "acceptRecvRequest (bad @ rest) w =
         acceptRecvRequest rest (w\<lparr>trace := trace w @ reprompts (length bad) (filename (obj w))\<rparr>)"
  using assms
proof (induction bad arbitrary: w)
  case Nil
  then show ?case by (simp add: reprompts_def)
next
  case (Cons a bad)
  let ?w' = "emit MessageBoxWarning (emit (GetSaveFileName (filename (obj w))) w)"
  from Cons.prems have a: "a \<noteq> []" "\<not> can_write (sys w) a" by auto
  then have step: "acceptRecvRequest ((a # bad) @ rest) w = acceptRecvRequest (bad @ rest) ?w'"
    by (simp add: isFileWritable_refused emit_def)
  have "\<forall>a\<in>set bad. a \<noteq> [] \<and> \<not> can_write (sys ?w') a"
    using Cons.prems by (simp add: emit_def)
  from Cons.IH [OF this] show ?case
    unfolding step by (simp add: emit_def reprompts_Suc)
qed

section \<open>Detaching from the core\<close>

lemma deliver_disconnected: "\<not> connected w \<Longrightarrow> deliver now n w = w"
  by (simp add: deliver_def)

lemma deliver_all_disconnected: "\<not> connected w \<Longrightarrow> deliver_all ns w = w"
  by (induction ns) (auto simp: deliver_disconnected)

lemma cancelled_disconnects:
  "notification_identity (FileTransferCancelled FriendId FileNum Direction) = own_identity (obj w) \<Longrightarrow>
   \<not> connected (onFileTransferCancelled FriendId FileNum Direction w)"
  by (simp add: onFileTransferCancelled_def own_identity_def emit_def disconnect_core_def Let_def)

lemma finished_disconnects:
  "notification_identity (FileTransferFinished File) = own_identity (obj w) \<Longrightarrow>
   \<not> connected (onFileTransferFinished File w)"
  by (simp add: onFileTransferFinished_def own_identity_def emit_def disconnect_core_def Let_def
      split: option.splits)

lemma rejectRecvRequest_disconnects: "\<not> connected (rejectRecvRequest w)"
  by (simp add: rejectRecvRequest_def onFileTransferCancelled_def emit_def disconnect_core_def Let_def)

text \<open>
  After a matching cancelled or finished notification, and after
  \<^verbatim>\<open>rejectRecvRequest\<close>, no further notification changes anything.
\<close>

lemma detached_after_terminal_notification:
  "notification_identity (FileTransferCancelled FriendId FileNum Direction) = own_identity (obj w) \<Longrightarrow>
   deliver_all ns (onFileTransferCancelled FriendId FileNum Direction w) =
     onFileTransferCancelled FriendId FileNum Direction w"
  "notification_identity (FileTransferFinished File) = own_identity (obj w) \<Longrightarrow>
   deliver_all ns (onFileTransferFinished File w) = onFileTransferFinished File w"
  "deliver_all ns (rejectRecvRequest w) = rejectRecvRequest w"
  by (simp_all add: deliver_all_disconnected cancelled_disconnects finished_disconnects
      rejectRecvRequest_disconnects)

lemma cancelTransfer_connected: "connected (cancelTransfer w) = connected w"
  by (simp add: cancelTransfer_def emit_def Let_def)

section \<open>Rendering\<close>

lemma draw2ButtonsForm_right_eq:
  "draw2ButtonsForm b64 r type imgA x = draw2ButtonsForm b64 r type imgA y \<longleftrightarrow> b64 x = b64 y"
  by (simp add: draw2ButtonsForm_def wrapIntoForm_def Let_def)

section \<open>Sample values\<close>

lemma demo_obj:
  "obj demo_world =
     \<lparr>id_num = 0, state = tsPending, remotePaused = False, filename = ''in.bin'',
      savePath = [], size_str = ''1.50kiB'', speed = ''0B/s'', eta = ''00:00'',
      lastUpdate = 0, lastBytesSent = 0, fileNum = 7, friendId = 3,
      direction = RECEIVING, pic = QImage_null\<rparr>"
  by (simp add: demo_world_def demo_file_def FileTransferInstance_new_def fmt_defs)

lemma demo_send_obj:
  "obj demo_send_world =
     \<lparr>id_num = 1, state = tsPending, remotePaused = False, filename = ''in.bin'',
      savePath = [], size_str = ''1.50kiB'', speed = ''0B/s'', eta = ''00:00'',
      lastUpdate = 0, lastBytesSent = 0, fileNum = 7, friendId = 3,
      direction = SENDING, pic = QImage_null\<rparr>"
  by (simp add: demo_send_world_def demo_send_file_def demo_file_def demo_platform_def
      FileTransferInstance_new_def loadFromData_def fmt_defs)

lemma demo_fields:
  "id_num (obj demo_world) = 0" "state (obj demo_world) = tsPending"
  "remotePaused (obj demo_world) = False" "filename (obj demo_world) = ''in.bin''"
  "savePath (obj demo_world) = []" "size_str (obj demo_world) = ''1.50kiB''"
  "speed (obj demo_world) = ''0B/s''" "eta (obj demo_world) = ''00:00''"
  "lastUpdate (obj demo_world) = 0" "lastBytesSent (obj demo_world) = 0"
  "fileNum (obj demo_world) = 7" "friendId (obj demo_world) = 3"
  "direction (obj demo_world) = RECEIVING" "pic (obj demo_world) = QImage_null"
  by (simp_all add: demo_obj)

lemma demo_send_fields:
  "state (obj demo_send_world) = tsPending" "fileNum (obj demo_send_world) = 7"
  "friendId (obj demo_send_world) = 3" "direction (obj demo_send_world) = SENDING"
  by (simp_all add: demo_send_obj)

lemma demo_world_rest:
  "connected demo_world" "trace demo_world = []" "sys demo_world = demo_platform"
  "connected demo_send_world" "trace demo_send_world = []"
  by (simp_all add: demo_world_def demo_send_world_def)

lemma demo_trace: "trace demo_world = []"
  by (simp add: demo_world_def)

lemma demo_timediff:
  "sint (info_timediff (obj demo_world) 2000) = 2"
  "sint (info_timediff (obj demo_world) 10000) = 10"
  "sint (info_timediff (obj demo_late_world) 1000) = 1"
  by (simp_all add: demo_late_world_def demo_fields info_timediff_def secsTo_def tdiv_def)

lemma demo_rawspeed:
  "info_rawspeed (obj demo_world) 2000 3 = 1"
  "info_rawspeed (obj demo_world) 10000 5 = 0"
  "sint (info_diff (obj demo_world) 5) = 5"
  by (simp_all add: demo_fields info_rawspeed_def info_diff_def info_timediff_def secsTo_def tdiv_def)

lemma demo_first_rawspeed: "info_rawspeed (obj demo_world) 2000 4 = 2"
  by (simp add: demo_fields info_rawspeed_def info_diff_def info_timediff_def secsTo_def tdiv_def)

lemma demo_progress_fields:
  "lastBytesSent (obj demo_progress_world) = 4" "lastUpdate (obj demo_progress_world) = 2000"
  "own_identity (obj demo_progress_world) = (3, 7, RECEIVING)"
  by (simp_all add: demo_progress_world_def info_baseline info_identity own_identity_def
      demo_fields demo_timediff demo_first_rawspeed)

lemma demo_stalled_fields:
  "lastBytesSent (obj demo_stalled_world) = 0" "lastUpdate (obj demo_stalled_world) = 0"
  "own_identity (obj demo_stalled_world) = (3, 7, RECEIVING)"
  by (simp_all add: demo_stalled_world_def info_baseline info_identity own_identity_def
      demo_fields demo_timediff demo_rawspeed)

lemma demo_second_timediff:
  "sint (info_timediff (obj demo_progress_world) 4000) = 2"
  "sint (info_timediff (obj demo_stalled_world) 11000) = 11"
  by (simp_all add: demo_progress_fields demo_stalled_fields info_timediff_def secsTo_def tdiv_def)

lemma demo_second_rawspeed:
  "info_rawspeed (obj demo_progress_world) 4000 7 = 1"
  "info_rawspeed (obj demo_stalled_world) 11000 1005 = 91"
  by (simp_all add: demo_progress_fields demo_stalled_fields info_rawspeed_def info_diff_def
      info_timediff_def secsTo_def tdiv_def)

section \<open>Claims\<close>

text \<open>
  Claim C1 (terminal states are final). The code detaches from the core in
  \<^verbatim>\<open>onFileTransferCancelled\<close> and \<^verbatim>\<open>onFileTransferFinished\<close>, and
  \<^verbatim>\<open>rejectRecvRequest\<close> goes through the former (lemma
  \<open>detached_after_terminal_notification\<close>). \<^verbatim>\<open>cancelTransfer\<close> sets the state to
  canceled without detaching: on a connected object it leaves the connection in place, and
  a matching accepted notification delivered afterwards moves the state from canceled to
  processing.
\<close>

theorem cancel_then_accepted_reopens:
  assumes "connected w"
    and "notification_identity (FileTransferAccepted File) = own_identity (obj w)"
  shows "state (obj (cancelTransfer w)) = tsCanceled
       \<and> connected (cancelTransfer w)
       \<and> state (obj (deliver now (FileTransferAccepted File) (cancelTransfer w))) = tsProcessing"
  using assms
  by (simp add: deliver_def cancelTransfer_def onFileTransferAccepted_def own_identity_def
      emit_def Let_def)

text \<open>
  The instance of C1 at the outgoing sample transfer: the user cancels, then the core
  reports at time 1000 that the peer accepted.
\<close>

theorem cancel_then_accepted_reopens_witness:
  "connected demo_send_world
   \<and> notification_identity (FileTransferAccepted demo_send_file) = own_identity (obj demo_send_world)
   \<and> state (obj (cancelTransfer demo_send_world)) = tsCanceled
   \<and> state (obj (deliver 1000 (FileTransferAccepted demo_send_file) (cancelTransfer demo_send_world)))
       = tsProcessing"
proof -
  have c: "connected demo_send_world"
    by (simp add: demo_world_rest)
  have i: "notification_identity (FileTransferAccepted demo_send_file) = own_identity (obj demo_send_world)"
    by (simp add: own_identity_def demo_send_fields demo_send_file_def demo_file_def)
  show ?thesis
    using c i cancel_then_accepted_reopens [OF c i, of 1000] by simp
qed

text \<open>
  Claim C2 as stated (a progress notification with zero throughput still moves the
  baseline and still emits the change signal) fails: ten seconds after construction the
  sample transfer is told that 5 bytes arrived. The throughput is 5 div 10 = 0; the
  handler returns before it stores the new baseline and before it emits.
\<close>

theorem zero_throughput_counterexample:
  "0 < sint (info_timediff (obj demo_world) 10000)
   \<and> info_rawspeed (obj demo_world) 10000 5 = 0
   \<and> lastUpdate (obj (onFileTransferInfo 10000 3 7 1536 5 RECEIVING demo_world)) \<noteq> 10000
   \<and> lastBytesSent (obj (onFileTransferInfo 10000 3 7 1536 5 RECEIVING demo_world)) \<noteq> 5
   \<and> StateUpdated \<notin> set (trace (onFileTransferInfo 10000 3 7 1536 5 RECEIVING demo_world))"
proof -
  have "onFileTransferInfo 10000 3 7 1536 5 RECEIVING demo_world =
     demo_world\<lparr>obj := (obj demo_world)\<lparr>speed := getHumanReadableSize 0 @ ''/s'',
                         size_str := getHumanReadableSize 1536\<rparr>,
       trace := trace demo_world @ (if sint (info_diff (obj demo_world) 5) < 0
                           then [QWarning negative_speed_warning] else [])\<rparr>"
    by (rule info_zero) (simp_all add: demo_fields demo_timediff demo_rawspeed)
  then show ?thesis
    by (simp add: demo_fields demo_timediff demo_rawspeed demo_world_rest)
qed

text \<open>
  Claim C2, amended. For an identity-matched progress notification with positive elapsed
  time whose throughput is zero, the handler stores the throughput string of zero and the
  size string and returns: the ETA, \<open>lastUpdate\<close>, \<open>lastBytesSent\<close> and every other
  member keep their values, and no change signal is emitted (the only event is the
  warning, when the byte difference was negative).
\<close>

theorem zero_throughput_update:
  assumes "notification_identity (FileTransferInfo FriendId FileNum Filesize BytesSent Direction)
             = own_identity (obj w)"
    and "0 < sint (info_timediff (obj w) newtime)"
    and "info_rawspeed (obj w) newtime BytesSent = 0"
  shows "onFileTransferInfo newtime FriendId FileNum Filesize BytesSent Direction w =
           w\<lparr>obj := (obj w)\<lparr>speed := getHumanReadableSize 0 @ ''/s'',
                               size_str := getHumanReadableSize Filesize\<rparr>,
             trace := trace w @ (if sint (info_diff (obj w) BytesSent) < 0
                                 then [QWarning negative_speed_warning] else [])\<rparr>
       \<and> eta (obj (onFileTransferInfo newtime FriendId FileNum Filesize BytesSent Direction w))
           = eta (obj w)
       \<and> lastUpdate (obj (onFileTransferInfo newtime FriendId FileNum Filesize BytesSent Direction w))
           = lastUpdate (obj w)
       \<and> lastBytesSent (obj (onFileTransferInfo newtime FriendId FileNum Filesize BytesSent Direction w))
           = lastBytesSent (obj w)
       \<and> (StateUpdated \<in> set (trace (onFileTransferInfo newtime FriendId FileNum Filesize BytesSent Direction w))
           \<longleftrightarrow> StateUpdated \<in> set (trace w))"
proof -
  from assms(1) have m: "FileNum = fileNum (obj w)" "FriendId = friendId (obj w)"
    "Direction = direction (obj w)"
    by (simp_all add: own_identity_def)
  show ?thesis
    by (simp add: info_zero [OF m assms(2) assms(3)])
qed

theorem zero_throughput_update_witness:
  "notification_identity (FileTransferInfo 3 7 1536 5 RECEIVING) = own_identity (obj demo_world)
   \<and> 0 < sint (info_timediff (obj demo_world) 10000)
   \<and> info_rawspeed (obj demo_world) 10000 5 = 0
   \<and> onFileTransferInfo 10000 3 7 1536 5 RECEIVING demo_world =
       demo_world\<lparr>obj := (obj demo_world)\<lparr>speed := ''0.00B/s'', size_str := ''1.50kiB''\<rparr>\<rparr>"
proof -
  have i: "notification_identity (FileTransferInfo 3 7 1536 5 RECEIVING) = own_identity (obj demo_world)"
    by (simp add: own_identity_def demo_fields)
  have t: "0 < sint (info_timediff (obj demo_world) 10000)"
    by (simp add: demo_timediff)
  have z: "info_rawspeed (obj demo_world) 10000 5 = 0"
    by (simp add: demo_rawspeed)
  show ?thesis
    using i t z zero_throughput_update [OF i t z]
    by (simp add: demo_rawspeed demo_world_rest size_samples)
qed

text \<open>
  Claim C3 as stated (the throughput is (bytesTransferred2 - bytesTransferred1) / t
  exactly, for two progress notifications t apart) fails in two ways. First the division
  is an integer division: 4 bytes are reported at second 2 and 7 bytes at second 4; the
  handler computes 1, the exact quotient is 3/2. Second the handler divides against its
  stored baseline, which a notification with zero throughput does not move: 5 bytes are
  reported at second 10 (throughput 0) and 1005 bytes at second 11; the handler computes
  1005 div 11 = 91, the quotient between the two notifications is 1000.
\<close>

theorem throughput_exact_counterexample:
  "lastBytesSent (obj demo_progress_world) = 4
   \<and> lastUpdate (obj demo_progress_world) = 2000
   \<and> sint (info_timediff (obj demo_progress_world) 4000) = 2
   \<and> real_of_int (sint (info_rawspeed (obj demo_progress_world) 4000 7)) \<noteq> (7 - 4) / 2
   \<and> sint (info_rawspeed (obj demo_stalled_world) 11000 1005) = 91
   \<and> real_of_int (sint (info_rawspeed (obj demo_stalled_world) 11000 1005)) \<noteq> (1005 - 5) / (11 - 10)"
  by (simp add: demo_progress_fields demo_second_timediff demo_second_rawspeed)

text \<open>
  Claim C3, amended. The handler measures against the baseline the object stores:
  \<open>lastBytesSent\<close> and \<open>lastUpdate\<close>. For a non-negative stored count, a reported
  count that is not below it, and t > 0 elapsed seconds as the handler holds them (the
  millisecond distance from \<open>lastUpdate\<close> in whole seconds when that is below
  \<open>2 ^ 31\<close> seconds), the throughput of an identity-matched progress notification is
  the integer quotient of the byte difference by t, that is the exact quotient rounded
  down, and the throughput string is the rendering of that number. The baseline is moved
  to the notification's time and count exactly when the notification is identity-matched,
  has t > 0 and a throughput other than zero; otherwise it stays, so the difference is
  not always taken against the notification before.
\<close>

theorem throughput_integer_quotient:
  "(0 \<le> sint (lastBytesSent (obj w))
      \<and> sint (lastBytesSent (obj w)) \<le> sint BytesSent
      \<and> 0 < sint (info_timediff (obj w) newtime)
      \<and> notification_identity (FileTransferInfo FriendId FileNum Filesize BytesSent Direction)
           = own_identity (obj w) \<longrightarrow>
        sint (info_rawspeed (obj w) newtime BytesSent)
          = (sint BytesSent - sint (lastBytesSent (obj w))) div sint (info_timediff (obj w) newtime)
      \<and> sint (info_rawspeed (obj w) newtime BytesSent)
          = \<lfloor>(real_of_int (sint BytesSent) - real_of_int (sint (lastBytesSent (obj w))))
              / real_of_int (sint (info_timediff (obj w) newtime))\<rfloor>
      \<and> speed (obj (onFileTransferInfo newtime FriendId FileNum Filesize BytesSent Direction w))
          = getHumanReadableSize (info_rawspeed (obj w) newtime BytesSent) @ ''/s'')
   \<and> (0 \<le> newtime - lastUpdate (obj w) \<and> newtime - lastUpdate (obj w) < 2147483648000 \<longrightarrow>
        sint (info_timediff (obj w) newtime) = (newtime - lastUpdate (obj w)) div 1000)
   \<and> lastBytesSent (obj (onFileTransferInfo newtime FriendId FileNum Filesize BytesSent Direction w)) =
        (if notification_identity (FileTransferInfo FriendId FileNum Filesize BytesSent Direction)
              = own_identity (obj w)
            \<and> 0 < sint (info_timediff (obj w) newtime)
            \<and> info_rawspeed (obj w) newtime BytesSent \<noteq> 0
         then BytesSent else lastBytesSent (obj w))
   \<and> lastUpdate (obj (onFileTransferInfo newtime FriendId FileNum Filesize BytesSent Direction w)) =
        (if notification_identity (FileTransferInfo FriendId FileNum Filesize BytesSent Direction)
              = own_identity (obj w)
            \<and> 0 < sint (info_timediff (obj w) newtime)
            \<and> info_rawspeed (obj w) newtime BytesSent \<noteq> 0
         then newtime else lastUpdate (obj w))"
proof -
  let ?d = "sint BytesSent - sint (lastBytesSent (obj w))"
  let ?t = "sint (info_timediff (obj w) newtime)"
  let ?w' = "onFileTransferInfo newtime FriendId FileNum Filesize BytesSent Direction w"
  have quotient: "sint (info_rawspeed (obj w) newtime BytesSent) = ?d div ?t
      \<and> sint (info_rawspeed (obj w) newtime BytesSent)
          = \<lfloor>(real_of_int (sint BytesSent) - real_of_int (sint (lastBytesSent (obj w))))
              / real_of_int ?t\<rfloor>
      \<and> speed (obj ?w') = getHumanReadableSize (info_rawspeed (obj w) newtime BytesSent) @ ''/s''"
    if h: "0 \<le> sint (lastBytesSent (obj w))
      \<and> sint (lastBytesSent (obj w)) \<le> sint BytesSent
      \<and> 0 < ?t
      \<and> notification_identity (FileTransferInfo FriendId FileNum Filesize BytesSent Direction)
           = own_identity (obj w)"
  proof -
    from h have q: "sint (info_rawspeed (obj w) newtime BytesSent) = ?d div ?t"
      by (intro rawspeed_quotient) simp_all
    have "\<lfloor>real_of_int ?d / real_of_int ?t\<rfloor> = ?d div ?t"
      by (rule floor_divide_of_int_eq)
    then have f: "sint (info_rawspeed (obj w) newtime BytesSent)
        = \<lfloor>(real_of_int (sint BytesSent) - real_of_int (sint (lastBytesSent (obj w))))
            / real_of_int ?t\<rfloor>"
      using q by simp
    from h have m: "FileNum = fileNum (obj w)" "FriendId = friendId (obj w)"
      "Direction = direction (obj w)" and t: "0 < ?t"
      by (simp_all add: own_identity_def)
    show ?thesis
      using q f info_speed [OF m t] by simp
  qed
  have seconds: "sint (info_timediff (obj w) newtime) = (newtime - lastUpdate (obj w)) div 1000"
    if "0 \<le> newtime - lastUpdate (obj w) \<and> newtime - lastUpdate (obj w) < 2147483648000"
    using that by (intro timediff_whole_seconds) simp_all
  have bytes: "lastBytesSent (obj ?w') =
        (if notification_identity (FileTransferInfo FriendId FileNum Filesize BytesSent Direction)
              = own_identity (obj w)
            \<and> 0 < ?t \<and> info_rawspeed (obj w) newtime BytesSent \<noteq> 0
         then BytesSent else lastBytesSent (obj w))"
    by (simp add: info_baseline)
  have time: "lastUpdate (obj ?w') =
        (if notification_identity (FileTransferInfo FriendId FileNum Filesize BytesSent Direction)
              = own_identity (obj w)
            \<and> 0 < ?t \<and> info_rawspeed (obj w) newtime BytesSent \<noteq> 0
         then newtime else lastUpdate (obj w))"
    by (simp add: info_baseline)
  from quotient seconds bytes time show ?thesis
    by blast
qed

text \<open>
  The instance of C3 at two notifications: 4 bytes at second 2 move the baseline, and
  7 bytes at second 4 are measured against it.
\<close>

theorem throughput_integer_quotient_witness:
  "lastBytesSent (obj demo_progress_world) = 4
   \<and> lastUpdate (obj demo_progress_world) = 2000
   \<and> 0 \<le> sint (lastBytesSent (obj demo_progress_world))
   \<and> sint (lastBytesSent (obj demo_progress_world)) \<le> sint (7 :: qint64)
   \<and> 0 < sint (info_timediff (obj demo_progress_world) 4000)
   \<and> notification_identity (FileTransferInfo 3 7 1536 7 RECEIVING)
       = own_identity (obj demo_progress_world)
   \<and> sint (info_timediff (obj demo_progress_world) 4000) = (4000 - 2000) div 1000
   \<and> sint (info_rawspeed (obj demo_progress_world) 4000 7) = 1
   \<and> speed (obj (onFileTransferInfo 4000 3 7 1536 7 RECEIVING demo_progress_world)) = ''1.00B/s''"
proof -
  have first: "notification_identity (FileTransferInfo 3 7 1536 4 RECEIVING) = own_identity (obj demo_world)
      \<and> 0 < sint (info_timediff (obj demo_world) 2000)
      \<and> info_rawspeed (obj demo_world) 2000 4 \<noteq> 0"
    by (simp add: own_identity_def demo_fields demo_timediff demo_first_rawspeed)
  have base: "lastBytesSent (obj demo_progress_world) = 4 \<and> lastUpdate (obj demo_progress_world) = 2000"
    using first throughput_integer_quotient [of demo_world 4 2000 3 7 1536 RECEIVING]
    by (simp add: demo_progress_world_def)
  have second: "0 \<le> sint (lastBytesSent (obj demo_progress_world))
      \<and> sint (lastBytesSent (obj demo_progress_world)) \<le> sint (7 :: qint64)
      \<and> 0 < sint (info_timediff (obj demo_progress_world) 4000)
      \<and> notification_identity (FileTransferInfo 3 7 1536 7 RECEIVING)
          = own_identity (obj demo_progress_world)"
    by (simp add: demo_progress_fields demo_second_timediff)
  have one: "getHumanReadableSize 1 = ''1.00B''"
    by (simp add: fmt_defs)
  show ?thesis
    using base second one throughput_integer_quotient [of demo_progress_world 7 4000 3 7 1536 RECEIVING]
    by (simp add: demo_progress_fields demo_second_timediff demo_second_rawspeed)
qed

text \<open>
  Claim C4 (identity filter). A notification of any kind whose (friend, file, direction)
  triple differs from the identity of the object leaves the whole state as it is,
  whatever its payload: no member of the object changes and nothing is emitted, both
  when the slot is called and when the signal is delivered through the connection.
\<close>

theorem mismatched_notification_ignored:
  "notification_identity n \<noteq> own_identity (obj w) \<Longrightarrow> slot now n w = w \<and> deliver now n w = w"
  by (cases n)
     (auto simp: own_identity_def deliver_def onFileTransferInfo_def onFileTransferCancelled_def
        onFileTransferFinished_def onFileTransferAccepted_def
        onFileTransferRemotePausedUnpaused_def onFileTransferPaused_def)

theorem mismatched_notification_ignored_witness:
  "notification_identity (FileTransferPaused 3 8 RECEIVING) \<noteq> own_identity (obj demo_world)
   \<and> slot 1000 (FileTransferPaused 3 8 RECEIVING) demo_world = demo_world
   \<and> deliver 1000 (FileTransferPaused 3 8 RECEIVING) demo_world = demo_world"
proof -
  have i: "notification_identity (FileTransferPaused 3 8 RECEIVING) \<noteq> own_identity (obj demo_world)"
    by (simp add: own_identity_def demo_fields)
  show ?thesis
    using i mismatched_notification_ignored [OF i, of 1000] by simp
qed

text \<open>
  Claim C5 (accepting a transfer). Let every path of \<open>bad\<close> be a non-empty path that
  fails the probe. While the user has only given those answers the call is still
  waiting in a dialog and neither the object nor the platform has changed; only dialogs
  and warnings were shown. If the next answer is the empty path (the dialog was
  cancelled) the call returns with the object unchanged, nothing requested from the core
  and nothing emitted. If the next answer is a writable path the call returns with
  \<open>savePath\<close> set to it and the state set to processing, after one acceptance request
  to the core with that path and one change signal.
\<close>

theorem accept_request_prompts:
  "(\<forall>a\<in>set bad. a \<noteq> [] \<and> \<not> can_write (sys w) a) \<Longrightarrow>
   acceptRecvRequest bad w =
     Waiting (w\<lparr>trace := trace w @ reprompts (length bad) (filename (obj w))
                           @ [GetSaveFileName (filename (obj w))]\<rparr>)
   \<and> acceptRecvRequest (bad @ [] # rest) w =
       Returned (w\<lparr>trace := trace w @ reprompts (length bad) (filename (obj w))
                             @ [GetSaveFileName (filename (obj w))]\<rparr>)
   \<and> (good \<noteq> [] \<and> can_write (sys w) good \<longrightarrow>
       acceptRecvRequest (bad @ good # rest) w =
         Returned (w\<lparr>obj := (obj w)\<lparr>savePath := good, state := tsProcessing\<rparr>,
                     sys := snd (isFileWritable (sys w) good),
                     trace := trace w @ reprompts (length bad) (filename (obj w))
                               @ [GetSaveFileName (filename (obj w)),
                                  AcceptFileRecvRequest (friendId (obj w)) (fileNum (obj w)) good,
                                  StateUpdated]\<rparr>))"
proof -
  assume bad: "\<forall>a\<in>set bad. a \<noteq> [] \<and> \<not> can_write (sys w) a"
  have waiting: "acceptRecvRequest bad w =
     Waiting (w\<lparr>trace := trace w @ reprompts (length bad) (filename (obj w))
                           @ [GetSaveFileName (filename (obj w))]\<rparr>)"
    using accept_refused_prefix [OF bad, of "[]"] by (simp add: emit_def)
  have cancelled: "acceptRecvRequest (bad @ [] # rest) w =
       Returned (w\<lparr>trace := trace w @ reprompts (length bad) (filename (obj w))
                             @ [GetSaveFileName (filename (obj w))]\<rparr>)"
    using accept_refused_prefix [OF bad, of "[] # rest"] by (simp add: emit_def)
  have chosen: "acceptRecvRequest (bad @ good # rest) w =
         Returned (w\<lparr>obj := (obj w)\<lparr>savePath := good, state := tsProcessing\<rparr>,
                     sys := snd (isFileWritable (sys w) good),
                     trace := trace w @ reprompts (length bad) (filename (obj w))
                               @ [GetSaveFileName (filename (obj w)),
                                  AcceptFileRecvRequest (friendId (obj w)) (fileNum (obj w)) good,
                                  StateUpdated]\<rparr>)"
    if g: "good \<noteq> [] \<and> can_write (sys w) good"
  proof -
    from g have "fst (isFileWritable (sys w) good)"
      by (simp add: isFileWritable_granted)
    with g show ?thesis
      using accept_refused_prefix [OF bad, of "good # rest"]
      by (simp add: emit_def Let_def split: prod.splits)
  qed
  from waiting cancelled chosen show ?thesis by blast
qed

text \<open>
  The instance of C5 at the incoming sample transfer, which is pending: the user first
  picks \<^verbatim>\<open>/root/x\<close>, which cannot be written, and then cancels, or then picks
  \<^verbatim>\<open>/tmp/in.bin\<close>, which can.
\<close>

theorem accept_request_prompts_witness:
  "''/root/x'' \<noteq> [] \<and> \<not> can_write (sys demo_world) ''/root/x''
   \<and> ''/tmp/in.bin'' \<noteq> [] \<and> can_write (sys demo_world) ''/tmp/in.bin''
   \<and> state (obj demo_world) = tsPending
   \<and> acceptRecvRequest [''/root/x''] demo_world =
       Waiting (demo_world\<lparr>trace := [GetSaveFileName ''in.bin'', MessageBoxWarning,
                                      GetSaveFileName ''in.bin'']\<rparr>)
   \<and> acceptRecvRequest [''/root/x'', []] demo_world =
       Returned (demo_world\<lparr>trace := [GetSaveFileName ''in.bin'', MessageBoxWarning,
                                       GetSaveFileName ''in.bin'']\<rparr>)
   \<and> acceptRecvRequest [''/root/x'', ''/tmp/in.bin''] demo_world =
       Returned (demo_world\<lparr>obj := (obj demo_world)\<lparr>savePath := ''/tmp/in.bin'',
                                                      state := tsProcessing\<rparr>,
                             trace := [GetSaveFileName ''in.bin'', MessageBoxWarning,
                                       GetSaveFileName ''in.bin'',
                                       AcceptFileRecvRequest 3 7 ''/tmp/in.bin'',
                                       StateUpdated]\<rparr>)"
proof -
  have bad: "\<forall>a\<in>set [''/root/x'']. a \<noteq> [] \<and> \<not> can_write (sys demo_world) a"
    by (simp add: demo_world_rest demo_platform_def)
  have good: "can_write (sys demo_world) ''/tmp/in.bin''"
    by (simp add: demo_world_rest demo_platform_def)
  have probe: "snd (isFileWritable (sys demo_world) ''/tmp/in.bin'') = sys demo_world"
    by (simp add: demo_world_rest demo_platform_def isFileWritable_def Let_def)
  show ?thesis
    using bad good accept_request_prompts [OF bad, of "[]" "''/tmp/in.bin''"]
    by (simp del: acceptRecvRequest.simps add: probe demo_fields demo_trace reprompts_def)
qed

text \<open>
  Claim C6 (out-of-order progress). For an identity-matched progress notification with
  positive elapsed time whose byte count is below the stored one, the throughput is
  zero and the warning is logged; the handler returns the updated state like any other
  call, with the throughput string of zero and the size string stored. The byte counts
  are those for which the \<^verbatim>\<open>qint64\<close> subtraction does not overflow, which holds
  for all non-negative counts.
\<close>

theorem out_of_order_clamped:
  assumes "notification_identity (FileTransferInfo FriendId FileNum Filesize BytesSent Direction)
             = own_identity (obj w)"
    and "0 < sint (info_timediff (obj w) newtime)"
    and "sint BytesSent < sint (lastBytesSent (obj w))"
    and "- (2 ^ 63) \<le> sint BytesSent - sint (lastBytesSent (obj w))"
  shows "info_rawspeed (obj w) newtime BytesSent = 0
       \<and> onFileTransferInfo newtime FriendId FileNum Filesize BytesSent Direction w =
           w\<lparr>obj := (obj w)\<lparr>speed := getHumanReadableSize 0 @ ''/s'',
                               size_str := getHumanReadableSize Filesize\<rparr>,
             trace := trace w @ [QWarning negative_speed_warning]\<rparr>"
proof -
  from assms(1) have m: "FileNum = fileNum (obj w)" "FriendId = friendId (obj w)"
    "Direction = direction (obj w)"
    by (simp_all add: own_identity_def)
  have c: "sint (info_diff (obj w) BytesSent) < 0" "info_rawspeed (obj w) newtime BytesSent = 0"
    using rawspeed_clamped [OF assms(3) assms(4)] by simp_all
  show ?thesis
    using c by (simp add: info_zero [OF m assms(2) c(2)])
qed

text \<open>
  The instance of C6: the sample transfer has 1024 bytes on record and is told, one
  second after its last update, that 512 bytes arrived.
\<close>

theorem out_of_order_clamped_witness:
  "notification_identity (FileTransferInfo 3 7 1536 512 RECEIVING) = own_identity (obj demo_late_world)
   \<and> 0 < sint (info_timediff (obj demo_late_world) 1000)
   \<and> sint (512 :: qint64) < sint (lastBytesSent (obj demo_late_world))
   \<and> - (2 ^ 63) \<le> sint (512 :: qint64) - sint (lastBytesSent (obj demo_late_world))
   \<and> info_rawspeed (obj demo_late_world) 1000 512 = 0
   \<and> speed (obj (onFileTransferInfo 1000 3 7 1536 512 RECEIVING demo_late_world)) = ''0.00B/s''
   \<and> trace (onFileTransferInfo 1000 3 7 1536 512 RECEIVING demo_late_world)
       = [QWarning negative_speed_warning]"
proof -
  have i: "notification_identity (FileTransferInfo 3 7 1536 512 RECEIVING) = own_identity (obj demo_late_world)"
    by (simp add: own_identity_def demo_late_world_def demo_fields)
  have t: "0 < sint (info_timediff (obj demo_late_world) 1000)"
    by (simp add: demo_timediff)
  have b: "sint (512 :: qint64) < sint (lastBytesSent (obj demo_late_world))"
    by (simp add: demo_late_world_def)
  have n: "- (2 ^ 63) \<le> sint (512 :: qint64) - sint (lastBytesSent (obj demo_late_world))"
    by (simp add: demo_late_world_def)
  have tr: "trace demo_late_world = []"
    by (simp add: demo_late_world_def demo_world_rest)
  show ?thesis
    using i t b n out_of_order_clamped [OF i t b n]
    by (simp add: tr size_samples)
qed

text \<open>
  Claim C7 as stated (for every byte count the formatter picks the unit in which the
  scaled value is at least 1 and below 1024) fails from 1024 TiB on: the unit table ends
  at TiB, so \<open>2 ^ 50\<close> bytes are shown as 1024.00TiB, a scaled value that is not below
  1024.
\<close>

theorem size_unit_counterexample:
  "getHumanReadableSize 1125899906842624 = ''1024.00TiB''
   \<and> \<not> unat (1125899906842624 :: c_ulonglong) < 1024 * 1024 ^ size_exp 1125899906842624"
  by (simp add: size_samples size_exp_samples)

text \<open>
  Claim C7, amended. A byte count of zero is shown as 0.00B. For a byte count from 1 up
  to (not including) \<open>1024 ^ 5\<close> the formatter picks the unit among B, kiB, MiB, GiB,
  TiB in which the scaled value is at least 1 and below 1024. From \<open>1024 ^ 5\<close> on it
  stays at TiB. In every case it renders the scaled value, rounded to hundredths, with
  two fraction digits and the suffix of the unit; 1024, 1536 and 1048576 are shown as
  1.00kiB, 1.50kiB and 1.00MiB.
\<close>

theorem size_format_units:
  "(sz = 0 \<longrightarrow> getHumanReadableSize sz = ''0.00B'')
   \<and> (sz \<noteq> 0 \<and> unat sz < 1024 ^ 5 \<longrightarrow>
        1024 ^ size_exp sz \<le> unat sz \<and> unat sz < 1024 * 1024 ^ size_exp sz)
   \<and> (1024 ^ 5 \<le> unat sz \<longrightarrow> size_exp sz = 4 \<and> 1024 * 1024 ^ size_exp sz \<le> unat sz)
   \<and> size_exp sz < length suffix_tab
   \<and> getHumanReadableSize sz =
        show_nat (round_hundredths (double_of_u64 (unat sz)) (1024 ^ size_exp sz) div 100)
        @ ''.''
        @ two_digits (round_hundredths (double_of_u64 (unat sz)) (1024 ^ size_exp sz) mod 100)
        @ suffix_tab ! size_exp sz
   \<and> getHumanReadableSize 1024 = ''1.00kiB''
   \<and> getHumanReadableSize 1536 = ''1.50kiB''
   \<and> getHumanReadableSize 1048576 = ''1.00MiB''"
proof -
  have zero: "sz = 0 \<longrightarrow> getHumanReadableSize sz = ''0.00B''"
    by (simp add: size_samples)
  have small: "sz \<noteq> 0 \<and> unat sz < 1024 ^ 5 \<longrightarrow>
        1024 ^ size_exp sz \<le> unat sz \<and> unat sz < 1024 * 1024 ^ size_exp sz"
    using size_exp_small [of sz] by blast
  have large: "1024 ^ 5 \<le> unat sz \<longrightarrow> size_exp sz = 4 \<and> 1024 * 1024 ^ size_exp sz \<le> unat sz"
    using size_exp_large [of sz] by auto
  have tab: "size_exp sz < length suffix_tab"
    using size_exp_le [of sz] by (simp add: suffix_tab_def)
  have shape: "getHumanReadableSize sz =
        show_nat (round_hundredths (double_of_u64 (unat sz)) (1024 ^ size_exp sz) div 100)
        @ ''.''
        @ two_digits (round_hundredths (double_of_u64 (unat sz)) (1024 ^ size_exp sz) mod 100)
        @ suffix_tab ! size_exp sz"
    by (simp add: getHumanReadableSize_def setNum_f2_def Let_def)
  show ?thesis
    using zero small large tab shape size_samples(2-4) by blast
qed

text \<open>The instances of C7 at 0, at 1536 and at \<open>2 ^ 50\<close> bytes.\<close>

theorem size_format_units_witness:
  "getHumanReadableSize 0 = ''0.00B''
   \<and> (1536 :: c_ulonglong) \<noteq> 0 \<and> unat (1536 :: c_ulonglong) < 1024 ^ 5
   \<and> size_exp 1536 = 1
   \<and> 1024 ^ size_exp 1536 \<le> unat (1536 :: c_ulonglong)
   \<and> unat (1536 :: c_ulonglong) < 1024 * 1024 ^ size_exp 1536
   \<and> 1024 ^ 5 \<le> unat (1125899906842624 :: c_ulonglong)
   \<and> size_exp 1125899906842624 = 4"
proof -
  have a: "(1536 :: c_ulonglong) \<noteq> 0 \<and> unat (1536 :: c_ulonglong) < 1024 ^ 5"
    by simp
  have b: "1024 ^ 5 \<le> unat (1125899906842624 :: c_ulonglong)"
    by simp
  show ?thesis
    using a b size_format_units [of 0] size_format_units [of 1536]
      size_format_units [of 1125899906842624]
    by (simp add: size_exp_samples)
qed



text \<open>
  Claim C9 (pause toggles). \<^verbatim>\<open>pauseResumeRecv\<close> and \<^verbatim>\<open>pauseResumeSend\<close> change
  nothing at all unless the state is processing or paused and \<open>remotePaused\<close> is not
  set. Otherwise they send the pause/resume request to the core and emit the change
  signal; the object, its state included, stays as it was.
\<close>

theorem pause_toggle_effect:
  "pauseResumeRecv w =
     (if (state (obj w) = tsProcessing \<or> state (obj w) = tsPaused) \<and> \<not> remotePaused (obj w)
      then w\<lparr>trace := trace w @ [PauseResumeFileRecv (friendId (obj w)) (fileNum (obj w)), StateUpdated]\<rparr>
      else w)
   \<and> pauseResumeSend w =
     (if (state (obj w) = tsProcessing \<or> state (obj w) = tsPaused) \<and> \<not> remotePaused (obj w)
      then w\<lparr>trace := trace w @ [PauseResumeFileSend (friendId (obj w)) (fileNum (obj w)), StateUpdated]\<rparr>
      else w)"
  by (simp add: pauseResumeRecv_def pauseResumeSend_def emit_def)

text \<open>
  The instances of C9: a pending transfer and a remotely paused one are left alone; a
  processing one sends the request and keeps its state.
\<close>

theorem pause_toggle_effect_witness:
  "pauseResumeRecv demo_world = demo_world
   \<and> pauseResumeSend demo_paused_world = demo_paused_world
   \<and> pauseResumeRecv demo_processing_world =
       demo_processing_world\<lparr>trace := [PauseResumeFileRecv 3 7, StateUpdated]\<rparr>
   \<and> state (obj (pauseResumeRecv demo_processing_world)) = tsProcessing"
  using pause_toggle_effect [of demo_world] pause_toggle_effect [of demo_paused_world]
    pause_toggle_effect [of demo_processing_world]
  by (simp add: demo_paused_world_def demo_processing_world_def demo_fields demo_trace)

text \<open>
  Claim C10 (accepted notification). An identity-matched accepted notification clears
  \<open>remotePaused\<close>, sets the state to processing and emits the change signal, from
  whatever state the object is in.
\<close>

theorem accepted_unconditional:
  "notification_identity (FileTransferAccepted File) = own_identity (obj w) \<Longrightarrow>
   onFileTransferAccepted File w =
     w\<lparr>obj := (obj w)\<lparr>remotePaused := False, state := tsProcessing\<rparr>,
       trace := trace w @ [StateUpdated]\<rparr>"
  by (simp add: onFileTransferAccepted_def own_identity_def emit_def Let_def)

text \<open>The instance of C10 at a transfer that is paused locally and by the peer.\<close>

theorem accepted_unconditional_witness:
  "notification_identity (FileTransferAccepted demo_file) = own_identity (obj demo_paused_world)
   \<and> state (obj demo_paused_world) = tsPaused
   \<and> remotePaused (obj demo_paused_world)
   \<and> state (obj (onFileTransferAccepted demo_file demo_paused_world)) = tsProcessing
   \<and> \<not> remotePaused (obj (onFileTransferAccepted demo_file demo_paused_world))
   \<and> trace (onFileTransferAccepted demo_file demo_paused_world) = [StateUpdated]"
proof -
  have i: "notification_identity (FileTransferAccepted demo_file) = own_identity (obj demo_paused_world)"
    by (simp add: own_identity_def demo_paused_world_def demo_fields demo_file_def)
  show ?thesis
    using i accepted_unconditional [OF i]
    by (simp add: demo_paused_world_def demo_trace)
qed

end
